theory Spec2Isabelle
  imports Complex_Main
begin

section \<open>Decoded JSON values and Python's operations on them\<close>

text \<open>
  The server in \<^verbatim>\<open>server1.py\<close> is one coroutine, \<^verbatim>\<open>handle(ws)\<close>. Everything it
  computes with is a value produced by \<^verbatim>\<open>json.loads\<close>. Such a value is \<^verbatim>\<open>None\<close>, a bool,
  an int, a float, a str, a list or a dict. Python floats are kept abstract (the type
  parameter \<open>'f\<close>): the handler never calculates with one, it only obtains one from
  \<^verbatim>\<open>float(...)\<close> and hands it to the backend. A dict is given by the list of its items;
  the keys of a decoded dict are distinct and a key is looked up with \<open>map_of\<close>.
  A str is the list of its code points, each of them below 256.
\<close>

datatype 'f json =
    JNull
  | JBool bool
  | JInt int
  | JFloat 'f
  | JStr string
  | JArr "'f json list"
  | JObj "(string \<times> 'f json) list"

text \<open>The exceptions that can leave \<^verbatim>\<open>handle\<close>.\<close>

datatype py_error =
    AttributeError
  | TypeError
  | ValueError
  | OverflowError
  | RecursionError
  | UnicodeDecodeError
  | ConnectionClosed

text \<open>
  What the module takes from outside its own text: the environment variable
  \<^verbatim>\<open>OPENAI_MODEL\<close>, and the Python runtime's float conversions and \<^verbatim>\<open>str()\<close>.
  \<^item> \<open>float_0_2\<close> is the value of the literal \<^verbatim>\<open>0.2\<close>;
  \<^item> \<open>float_of_int i\<close> is \<^verbatim>\<open>float(i)\<close> for an int, \<open>None\<close> when it raises OverflowError;
  \<^item> \<open>float_of_str s\<close> is \<^verbatim>\<open>float(s)\<close> for a str, \<open>None\<close> when it raises ValueError;
  \<^item> \<open>str_other v\<close> is \<^verbatim>\<open>str(v)\<close> for a float, a list or a dict.
\<close>

record 'f env =
  OPENAI_MODEL :: string
  float_0_2 :: 'f
  float_of_int :: "int \<Rightarrow> 'f option"
  float_of_str :: "string \<Rightarrow> 'f option"
  str_other :: "'f json \<Rightarrow> string"

definition SERVER_NAME :: string where
  "SERVER_NAME = ''sample-mcp-server''"

definition CAPS :: "'f json list" where
  "CAPS = [JStr ''llm.generate'']"

text \<open>\<^verbatim>\<open>d.get(k, default)\<close> on a dict.\<close>

definition dict_get :: "(string \<times> 'f json) list \<Rightarrow> string \<Rightarrow> 'f json \<Rightarrow> 'f json" where
  "dict_get d k dflt = (case map_of d k of None \<Rightarrow> dflt | Some v \<Rightarrow> v)"

text \<open>
  \<^verbatim>\<open>float(v)\<close>: a float is returned as it is, an int or a bool (a subclass of int) is
  converted, a str is parsed, and \<^verbatim>\<open>None\<close>, a list and a dict raise TypeError.
\<close>

fun py_float :: "'f env \<Rightarrow> 'f json \<Rightarrow> py_error + 'f" where
  "py_float env (JFloat x) = Inr x"
| "py_float env (JInt i) =
     (case float_of_int env i of None \<Rightarrow> Inl OverflowError | Some x \<Rightarrow> Inr x)"
| "py_float env (JBool b) =
     (case float_of_int env (if b then 1 else 0) of None \<Rightarrow> Inl OverflowError | Some x \<Rightarrow> Inr x)"
| "py_float env (JStr s) =
     (case float_of_str env s of None \<Rightarrow> Inl ValueError | Some x \<Rightarrow> Inr x)"
| "py_float env JNull = Inl TypeError"
| "py_float env (JArr xs) = Inl TypeError"
| "py_float env (JObj d) = Inl TypeError"

text \<open>
  \<^verbatim>\<open>str.isspace\<close> on one character below 256: U+0009 to U+000D, U+001C to U+0020,
  U+0085 and U+00A0. \<^verbatim>\<open>s.strip()\<close> removes such characters from both ends.
\<close>

definition isspace :: "char \<Rightarrow> bool" where
  "isspace ch =
     (let n = (of_char ch :: nat)
      in (9 \<le> n \<and> n \<le> 13) \<or> (28 \<le> n \<and> n \<le> 32) \<or> n = 133 \<or> n = 160)"

definition strip :: "string \<Rightarrow> string" where
  "strip s = rev (dropWhile isspace (rev (dropWhile isspace s)))"

text \<open>\<^verbatim>\<open>str(n)\<close> for an int: its decimal digits, with a minus sign when negative.\<close>

fun str_nat :: "nat \<Rightarrow> string" where
  "str_nat n =
     (if n < 10 then [char_of (48 + n)]
      else str_nat (n div 10) @ [char_of (48 + n mod 10)])"

declare str_nat.simps [simp del]

definition str_int :: "int \<Rightarrow> string" where
  "str_int i = (if i < 0 then CHR ''-'' # str_nat (nat (- i)) else str_nat (nat i))"

text \<open>\<^verbatim>\<open>f"{v}"\<close>, which is \<^verbatim>\<open>str(v)\<close> for each of these types.\<close>

fun py_str :: "'f env \<Rightarrow> 'f json \<Rightarrow> string" where
  "py_str env (JStr s) = s"
| "py_str env JNull = ''None''"
| "py_str env (JBool b) = (if b then ''True'' else ''False'')"
| "py_str env (JInt i) = str_int i"
| "py_str env v = str_other env v"

text \<open>\<^verbatim>\<open>lines[-5:]\<close>: the last five elements, or all of them when there are fewer.\<close>

definition last5 :: "'a list \<Rightarrow> 'a list" where
  "last5 xs = drop (length xs - 5) xs"

section \<open>The connection and the backend\<close>

text \<open>
  The transport delivers whole messages, as a str or as bytes. An inbound message is
  represented by what \<^verbatim>\<open>json.loads\<close> makes of it:
  \<^item> \<open>Bad_json\<close> when it raises JSONDecodeError, the one exception that lines 28 and 53
    catch;
  \<^item> \<open>Loads_raises e\<close> when it raises another exception \<open>e\<close>: RecursionError on a text
    nested deeper than the interpreter's recursion limit (a long run of \<^verbatim>\<open>[\<close>), a plain
    ValueError on a number literal longer than the interpreter's limit of digits, and
    UnicodeDecodeError on bytes that are not UTF-8;
  \<^item> \<open>Json v\<close> when it returns \<open>v\<close>.
  A connection's inbound traffic is the list of the messages received before the
  transport reports closure; \<^verbatim>\<open>ws.recv()\<close> on the empty list raises ConnectionClosed.
  \<^verbatim>\<open>ws.send\<close> is taken to succeed; what is sent is the value given to \<^verbatim>\<open>json.dumps\<close>.
\<close>

datatype 'f inbound = Bad_json | Loads_raises py_error | Json "'f json"

text \<open>The keyword arguments of \<^verbatim>\<open>oai.chat.completions.create\<close>.\<close>

record 'f create_args =
  arg_model :: "'f json"
  arg_temperature :: 'f
  arg_messages :: "'f json list"

text \<open>
  The backend capability is lines 94 to 103 and the \<^verbatim>\<open>model_dump\<close> of line 111, all
  inside the \<^verbatim>\<open>try\<close>: it either raises (\<open>Failed\<close>, with \<^verbatim>\<open>str(e)\<close> and the lines of
  \<^verbatim>\<open>traceback.format_exc()\<close>), or gives the content of the first choice (a str or
  \<^verbatim>\<open>None\<close>) and the usage statistics as a mapping (\<open>None\<close> when the reply has none).
  The backend is a service with a state \<open>'w\<close> of its own: the same call may be answered
  differently at another time.
\<close>

datatype 'f reply =
    Failed string "string list"
  | Completed "string option" "(string \<times> 'f json) list option"

type_synonym ('f, 'w) backend = "'f create_args \<Rightarrow> 'w \<Rightarrow> 'f reply \<times> 'w"

text \<open>
  The effects of a session so far: the frames sent on the socket, in order, the backend
  calls made, in order, and the backend's state.
\<close>

record ('f, 'w) conn =
  sent :: "'f json list"
  calls :: "'f create_args list"
  world :: 'w

definition ws_send :: "'f json \<Rightarrow> ('f, 'w) conn \<Rightarrow> ('f, 'w) conn" where
  "ws_send frame c = c\<lparr>sent := sent c @ [frame]\<rparr>"

section \<open>The frames the server sends\<close>

text \<open>
  The dict literals given to \<^verbatim>\<open>json.dumps\<close>, with their keys in the order of the source.
  \<open>error_result\<close> is the literal of lines 29 to 34, 54 to 59, 63 to 68, 84 to 89 and 127
  to 132; \<open>ready\<close> that of lines 38 to 42; \<open>ok_result\<close> that of lines 104 to 113 and
  \<open>llm_error_result\<close> that of lines 115 to 124.
\<close>

definition error_result :: "'f json \<Rightarrow> string \<Rightarrow> string \<Rightarrow> 'f json" where
  "error_result req_id code message =
     JObj [(''type'', JStr ''result''),
           (''id'', req_id),
           (''ok'', JBool False),
           (''error'', JObj [(''code'', JStr code), (''message'', JStr message)])]"

definition ready :: "'f json" where
  "ready =
     JObj [(''type'', JStr ''ready''),
           (''server'', JStr SERVER_NAME),
           (''capabilities'', JArr CAPS)]"

definition ok_result ::
  "'f json \<Rightarrow> string option \<Rightarrow> 'f json \<Rightarrow> (string \<times> 'f json) list option \<Rightarrow> 'f json" where
  "ok_result req_id text format usage =
     JObj [(''type'', JStr ''result''),
           (''id'', req_id),
           (''ok'', JBool True),
           (''data'', JObj [
              (''text'', case text of None \<Rightarrow> JNull | Some t \<Rightarrow> JStr t),
              (''format'', format),
              (''usage'', case usage of None \<Rightarrow> JObj [] | Some u \<Rightarrow> JObj u)])]"

definition llm_error_result :: "'f json \<Rightarrow> string \<Rightarrow> string list \<Rightarrow> 'f json" where
  "llm_error_result req_id message tb =
     JObj [(''type'', JStr ''result''),
           (''id'', req_id),
           (''ok'', JBool False),
           (''error'', JObj [
              (''code'', JStr ''LLMError''),
              (''message'', JStr message),
              (''trace'', JArr (map JStr (last5 tb)))])]"

section \<open>The handler\<close>

text \<open>
  Lines 76 to 124: the branch \<^verbatim>\<open>method == "llm.generate"\<close>. The result is the exception
  that leaves \<^verbatim>\<open>handle\<close> there, if any (\<open>None\<close>: the loop goes on), and the effects.
  \<^verbatim>\<open>params.get\<close> needs a dict and \<^verbatim>\<open>prompt.strip\<close> needs a str; both raise
  AttributeError otherwise. Lines 77 to 81 run before the check of the prompt,
  and none of lines 77 to 90 is inside the \<^verbatim>\<open>try\<close>.
\<close>

definition llm_generate ::
  "'f env \<Rightarrow> ('f, 'w) backend \<Rightarrow> 'f json \<Rightarrow> 'f json \<Rightarrow> ('f, 'w) conn
     \<Rightarrow> py_error option \<times> ('f, 'w) conn" where
  "llm_generate env oai req_id params c =
     (case params of
        JObj p \<Rightarrow>
          (let prompt = dict_get p ''prompt'' (JStr '''');
               system = dict_get p ''system'' (JStr ''You are a helpful assistant.'');
               model = dict_get p ''model'' (JStr (OPENAI_MODEL env))
           in case py_float env (dict_get p ''temperature'' (JFloat (float_0_2 env))) of
                Inl e \<Rightarrow> (Some e, c)
              | Inr temperature \<Rightarrow>
                  (let format = dict_get p ''format'' (JStr ''markdown'')
                   in case prompt of
                        JStr pr \<Rightarrow>
                          if strip pr = [] then
                            (None, ws_send (error_result req_id ''BadRequest'' ''prompt is required'') c)
                          else
                            (let args = \<lparr>arg_model = model, arg_temperature = temperature,
                                   arg_messages = [
                                     JObj [(''role'', JStr ''system''), (''content'', system)],
                                     JObj [(''role'', JStr ''user''), (''content'', JStr pr)]]\<rparr>;
                                 c1 = c\<lparr>calls := calls c @ [args]\<rparr>
                             in case oai args (world c) of
                                  (Completed text usage, w) \<Rightarrow>
                                    (None, ws_send (ok_result req_id text format usage)
                                             (c1\<lparr>world := w\<rparr>))
                                | (Failed message tb, w) \<Rightarrow>
                                    (None, ws_send (llm_error_result req_id message tb)
                                             (c1\<lparr>world := w\<rparr>)))
                      | _ \<Rightarrow> (Some AttributeError, c)))
      | _ \<Rightarrow> (Some AttributeError, c))"

text \<open>
  Lines 51 to 132: one pass of the loop body on a received message. The \<^verbatim>\<open>except\<close> of
  line 53 names JSONDecodeError only: any other exception of \<^verbatim>\<open>json.loads\<close> leaves the
  handler. \<^verbatim>\<open>msg.get\<close> needs a dict and raises AttributeError on any other decoded
  value.
\<close>

fun on_message ::
  "'f env \<Rightarrow> ('f, 'w) backend \<Rightarrow> 'f inbound \<Rightarrow> ('f, 'w) conn
     \<Rightarrow> py_error option \<times> ('f, 'w) conn" where
  "on_message env oai Bad_json c =
     (None, ws_send (error_result (JStr ''unknown'') ''BadJSON'' ''Request must be JSON'') c)"
| "on_message env oai (Loads_raises e) c = (Some e, c)"
| "on_message env oai (Json (JObj msg)) c =
     (if dict_get msg ''type'' JNull \<noteq> JStr ''request'' then
        (None, ws_send (error_result (dict_get msg ''id'' (JStr ''unknown''))
                 ''BadRequest'' ''Expected type=request'') c)
      else
        (let req_id = dict_get msg ''id'' (JStr ''unknown'');
             method = dict_get msg ''method'' JNull;
             params = dict_get msg ''params'' (JObj [])
         in if method = JStr ''llm.generate'' then llm_generate env oai req_id params c
            else
              (None, ws_send (error_result req_id ''NoSuchMethod''
                       (''Unknown method '' @ py_str env method)) c)))"
| "on_message env oai (Json v) c = (Some AttributeError, c)"

text \<open>
  Lines 45 to 132: the loop. It ends without an exception when \<^verbatim>\<open>ws.recv()\<close> raises
  ConnectionClosed (\<^verbatim>\<open>break\<close>), and with the exception when the body raises one.
\<close>

fun serve ::
  "'f env \<Rightarrow> ('f, 'w) backend \<Rightarrow> 'f inbound list \<Rightarrow> ('f, 'w) conn
     \<Rightarrow> py_error option \<times> ('f, 'w) conn" where
  "serve env oai [] c = (None, c)"
| "serve env oai (raw # rest) c =
     (case on_message env oai raw c of
        (None, c') \<Rightarrow> serve env oai rest c'
      | (Some e, c') \<Rightarrow> (Some e, c'))"

text \<open>
  Lines 23 to 132: \<^verbatim>\<open>handle(ws)\<close>. The result \<open>None\<close> is a normal return. The first
  \<^verbatim>\<open>ws.recv()\<close> is not guarded: on a connection closed before any message its
  exception leaves the handler. So does an exception of \<^verbatim>\<open>json.loads\<close> that is not a
  JSONDecodeError (line 28).
\<close>

fun handle ::
  "'f env \<Rightarrow> ('f, 'w) backend \<Rightarrow> 'f inbound list \<Rightarrow> ('f, 'w) conn
     \<Rightarrow> py_error option \<times> ('f, 'w) conn" where
  "handle env oai [] c = (Some ConnectionClosed, c)"
| "handle env oai (Bad_json # rest) c =
     (None, ws_send (error_result (JStr ''init'') ''BadJSON'' ''Initialize must be JSON'') c)"
| "handle env oai (Loads_raises e # rest) c = (Some e, c)"
| "handle env oai (Json init # rest) c = serve env oai rest (ws_send ready c)"

section \<open>A concrete environment\<close>

text \<open>
  An environment, a backend and a fresh connection to run the handler on. Floats are
  the rationals they are written as, the default model is the one of line 11, and the
  backend answers every call with the text \<^verbatim>\<open>hello\<close> and no usage statistics. Of the
  strs this small environment parses only \<^verbatim>\<open>0.5\<close> as a float; no run below gives a str
  as temperature.
\<close>

definition env0 :: "rat env" where
  "env0 = \<lparr>OPENAI_MODEL = ''gpt-4o-mini'',
            float_0_2 = 2 / 10,
            float_of_int = (\<lambda>i. Some (of_int i)),
            float_of_str = (\<lambda>s. if s = ''0.5'' then Some (5 / 10) else None),
            str_other = (\<lambda>v. ''?'')\<rparr>"

definition oai0 :: "(rat, unit) backend" where
  "oai0 = (\<lambda>args w. (Completed (Some ''hello'') None, w))"

definition conn0 :: "(rat, unit) conn" where
  "conn0 = \<lparr>sent = [], calls = [], world = ()\<rparr>"

section \<open>Facts about the operations\<close>

lemma strip_empty: "strip s = [] \<longleftrightarrow> (\<forall>ch\<in>set s. isspace ch)"
  unfolding strip_def
  by (metis dropWhile_eq_Nil_conv rev_is_Nil_conv set_rev set_dropWhileD hd_dropWhile
        list.set_sel(1))

lemma dict_get_present: "map_of d k = Some v \<Longrightarrow> dict_get d k x = v"
  by (simp add: dict_get_def)




text \<open>
  The three ways through the branch of \<^verbatim>\<open>llm.generate\<close> on a dict of parameters: the
  coercion of the temperature raises; the prompt is blank; the backend is called.
\<close>

lemma llm_generate_raises:
  assumes "py_float env (dict_get p ''temperature'' (JFloat (float_0_2 env))) = Inl e"
  shows "llm_generate env oai req_id (JObj p) c = (Some e, c)"
  using assms by (simp add: llm_generate_def Let_def)


lemma llm_generate_run:
  assumes "dict_get p ''prompt'' (JStr '''') = JStr pr"
      and "strip pr \<noteq> []"
      and "py_float env (dict_get p ''temperature'' (JFloat (float_0_2 env))) = Inr t"
      and "args = \<lparr>arg_model = dict_get p ''model'' (JStr (OPENAI_MODEL env)),
                    arg_temperature = t,
                    arg_messages = [
                      JObj [(''role'', JStr ''system''),
                            (''content'', dict_get p ''system'' (JStr ''You are a helpful assistant.''))],
                      JObj [(''role'', JStr ''user''), (''content'', JStr pr)]]\<rparr>"
  shows "llm_generate env oai req_id (JObj p) c =
           (None, ws_send
              (case fst (oai args (world c)) of
                 Completed text usage \<Rightarrow>
                   ok_result req_id text (dict_get p ''format'' (JStr ''markdown'')) usage
               | Failed message tb \<Rightarrow> llm_error_result req_id message tb)
              (c\<lparr>calls := calls c @ [args], world := snd (oai args (world c))\<rparr>))"
  using assms
  by (simp add: llm_generate_def Let_def split: prod.splits reply.splits)

text \<open>A backend call recorded by the branch tells which way it went.\<close>

lemma llm_generate_invoked:
  assumes "llm_generate env oai req_id params c = (r, c')"
      and "calls c' = calls c @ [args]"
  shows "\<exists>p pr t. params = JObj p \<and> dict_get p ''prompt'' (JStr '''') = JStr pr \<and> strip pr \<noteq> []
           \<and> py_float env (dict_get p ''temperature'' (JFloat (float_0_2 env))) = Inr t
           \<and> args = \<lparr>arg_model = dict_get p ''model'' (JStr (OPENAI_MODEL env)),
                    arg_temperature = t,
                    arg_messages = [
                      JObj [(''role'', JStr ''system''),
                            (''content'', dict_get p ''system'' (JStr ''You are a helpful assistant.''))],
                      JObj [(''role'', JStr ''user''), (''content'', JStr pr)]]\<rparr>"
  using assms
  by (auto simp: llm_generate_def Let_def ws_send_def
        split: json.splits sum.splits if_splits prod.splits reply.splits)

text \<open>
  One pass of the loop either raises and leaves the connection as it was, or sends one
  frame, which is not the ready announcement, and goes on.
\<close>

lemma llm_generate_cases:
  "llm_generate env oai req_id params c = (r, c') \<Longrightarrow>
     (r \<noteq> None \<and> c' = c) \<or> (r = None \<and> (\<exists>f. f \<noteq> ready \<and> sent c' = sent c @ [f]))"
  by (auto simp: llm_generate_def Let_def ws_send_def ready_def error_result_def ok_result_def
        llm_error_result_def split: json.splits sum.splits if_splits prod.splits reply.splits)

lemma on_message_cases:
  "on_message env oai raw c = (r, c') \<Longrightarrow>
     (r \<noteq> None \<and> c' = c) \<or> (r = None \<and> (\<exists>f. f \<noteq> ready \<and> sent c' = sent c @ [f]))"
proof (induction env oai raw c rule: on_message.induct)
  case (1 env oai c)
  then show ?case by (auto simp: ws_send_def ready_def error_result_def)
next
  case (3 env oai msg c)
  then show ?case
    using llm_generate_cases[of env oai _ _ c r c']
    by (auto simp: Let_def ws_send_def ready_def error_result_def split: if_splits)
qed auto

lemma serve_frames:
  "serve env oai rest c = (r, c') \<Longrightarrow> \<exists>fs. sent c' = sent c @ fs \<and> ready \<notin> set fs"
proof (induction rest arbitrary: c)
  case Nil
  then show ?case by simp
next
  case (Cons raw rest)
  obtain r1 c1 where step: "on_message env oai raw c = (r1, c1)"
    by (cases "on_message env oai raw c")
  from on_message_cases[OF step]
  obtain fs1 where one: "sent c1 = sent c @ fs1" "ready \<notin> set fs1"
    by auto
  show ?case
  proof (cases r1)
    case None
    with Cons.prems step have "serve env oai rest c1 = (r, c')" by simp
    from Cons.IH[OF this] obtain fs where "sent c' = sent c1 @ fs" "ready \<notin> set fs"
      by blast
    with one have "sent c' = sent c @ (fs1 @ fs) \<and> ready \<notin> set (fs1 @ fs)" by simp
    then show ?thesis by blast
  next
    case (Some e)
    with Cons.prems step have "c' = c1" by simp
    with one show ?thesis by blast
  qed
qed

text \<open>
  The whitespace characters and the accepted temperatures, spelled out; the decimal
  digits of a natural number.
\<close>

lemma isspace_iff:
  "isspace ch \<longleftrightarrow> (of_char ch :: nat) \<in> {9, 10, 11, 12, 13, 28, 29, 30, 31, 32, 133, 160}"
  unfolding isspace_def Let_def by auto

lemma non_blank_iff:
  "strip pr \<noteq> [] \<longleftrightarrow>
     (\<exists>ch\<in>set pr. (of_char ch :: nat) \<notin> {9, 10, 11, 12, 13, 28, 29, 30, 31, 32, 133, 160})"
  by (simp only: strip_empty isspace_iff) blast

lemma py_float_iff:
  "py_float env (dict_get p ''temperature'' (JFloat (float_0_2 env))) = Inr t \<longleftrightarrow>
     (case map_of p ''temperature'' of
        None \<Rightarrow> t = float_0_2 env
      | Some (JFloat x) \<Rightarrow> t = x
      | Some (JInt i) \<Rightarrow> float_of_int env i = Some t
      | Some (JBool b) \<Rightarrow> float_of_int env (if b then 1 else 0) = Some t
      | Some (JStr s) \<Rightarrow> float_of_str env s = Some t
      | Some v \<Rightarrow> False)"
  by (auto simp: dict_get_def split: option.splits json.splits)



text \<open>A request for \<^verbatim>\<open>llm.generate\<close> goes to the branch of lines 76 to 124, with the defaults of lines 71 and 73.\<close>

lemma on_message_generate:
  assumes "map_of msg ''type'' = Some (JStr ''request'')"
      and "map_of msg ''method'' = Some (JStr ''llm.generate'')"
  shows "on_message env oai (Json (JObj msg)) c =
           llm_generate env oai (dict_get msg ''id'' (JStr ''unknown''))
             (dict_get msg ''params'' (JObj [])) c"
  using assms by (simp add: Let_def dict_get_present)

text \<open>The pass of the loop on a request whose backend call succeeds.\<close>

lemma on_message_completed:
  assumes "map_of msg ''type'' = Some (JStr ''request'')"
      and "map_of msg ''method'' = Some (JStr ''llm.generate'')"
      and "map_of msg ''params'' = Some (JObj p)"
      and "map_of p ''prompt'' = Some (JStr pr)"
      and "\<exists>ch\<in>set pr. (of_char ch :: nat) \<notin> {9, 10, 11, 12, 13, 28, 29, 30, 31, 32, 133, 160}"
      and "case map_of p ''temperature'' of
             None \<Rightarrow> t = float_0_2 env
           | Some (JFloat x) \<Rightarrow> t = x
           | Some (JInt i) \<Rightarrow> float_of_int env i = Some t
           | Some (JBool b) \<Rightarrow> float_of_int env (if b then 1 else 0) = Some t
           | Some (JStr s) \<Rightarrow> float_of_str env s = Some t
           | Some v \<Rightarrow> False"
      and "args = \<lparr>arg_model = (case map_of p ''model'' of
                                    None \<Rightarrow> JStr (OPENAI_MODEL env) | Some v \<Rightarrow> v),
                    arg_temperature = t,
                    arg_messages = [
                      JObj [(''role'', JStr ''system''),
                            (''content'', case map_of p ''system'' of
                                           None \<Rightarrow> JStr ''You are a helpful assistant.''
                                         | Some v \<Rightarrow> v)],
                      JObj [(''role'', JStr ''user''), (''content'', JStr pr)]]\<rparr>"
      and "oai args (world c) = (Completed tx us, w)"
  shows "on_message env oai (Json (JObj msg)) c =
           (None, c\<lparr>sent := sent c @ [
              JObj [(''type'', JStr ''result''),
                    (''id'', case map_of msg ''id'' of None \<Rightarrow> JStr ''unknown'' | Some i \<Rightarrow> i),
                    (''ok'', JBool True),
                    (''data'', JObj [
                       (''text'', case tx of None \<Rightarrow> JNull | Some s \<Rightarrow> JStr s),
                       (''format'', case map_of p ''format'' of
                                      None \<Rightarrow> JStr ''markdown'' | Some v \<Rightarrow> v),
                       (''usage'', case us of None \<Rightarrow> JObj [] | Some u \<Rightarrow> JObj u)])]],
              calls := calls c @ [args], world := w\<rparr>)"
proof -
  have pr: "dict_get p ''prompt'' (JStr '''') = JStr pr" "strip pr \<noteq> []"
    using assms(4,5) by (simp_all add: dict_get_present non_blank_iff)
  have t: "py_float env (dict_get p ''temperature'' (JFloat (float_0_2 env))) = Inr t"
    using assms(6) by (simp only: py_float_iff)
  have args: "args = \<lparr>arg_model = dict_get p ''model'' (JStr (OPENAI_MODEL env)),
                    arg_temperature = t,
                    arg_messages = [
                      JObj [(''role'', JStr ''system''),
                            (''content'', dict_get p ''system'' (JStr ''You are a helpful assistant.''))],
                      JObj [(''role'', JStr ''user''), (''content'', JStr pr)]]\<rparr>"
    using assms(7) by (simp add: dict_get_def)
  have "on_message env oai (Json (JObj msg)) c =
          llm_generate env oai (dict_get msg ''id'' (JStr ''unknown'')) (JObj p) c"
    using assms(1,2,3) by (simp add: on_message_generate dict_get_present del: on_message.simps)
  also have "\<dots> = (None, ws_send
              (ok_result (dict_get msg ''id'' (JStr ''unknown'')) tx
                 (dict_get p ''format'' (JStr ''markdown'')) us)
              (c\<lparr>calls := calls c @ [args], world := w\<rparr>))"
    using llm_generate_run[OF pr t args, of oai "dict_get msg ''id'' (JStr ''unknown'')" c] assms(8)
    by simp
  finally show ?thesis
    by (simp add: ws_send_def ok_result_def dict_get_def)
qed

text \<open>
  The branch reads the parameters \<^verbatim>\<open>prompt\<close>, \<^verbatim>\<open>system\<close>, \<^verbatim>\<open>model\<close> and \<^verbatim>\<open>temperature\<close>
  before it calls the backend; \<^verbatim>\<open>format\<close> goes to the result only.
\<close>

lemma llm_generate_format:
  assumes "\<forall>k. k \<noteq> ''format'' \<longrightarrow> map_of p1 k = map_of p2 k"
  shows "fst (llm_generate env oai req_id (JObj p1) c) = fst (llm_generate env oai req_id (JObj p2) c)
       \<and> calls (snd (llm_generate env oai req_id (JObj p1) c))
           = calls (snd (llm_generate env oai req_id (JObj p2) c))
       \<and> world (snd (llm_generate env oai req_id (JObj p1) c))
           = world (snd (llm_generate env oai req_id (JObj p2) c))"
proof -
  have eq: "dict_get p1 ''prompt'' x = dict_get p2 ''prompt'' x"
           "dict_get p1 ''system'' x = dict_get p2 ''system'' x"
           "dict_get p1 ''model'' x = dict_get p2 ''model'' x"
           "dict_get p1 ''temperature'' x = dict_get p2 ''temperature'' x" for x
    using assms by (simp_all add: dict_get_def)
  show ?thesis
    by (simp add: llm_generate_def Let_def eq ws_send_def
          split: sum.splits json.splits prod.splits reply.splits)
qed

text \<open>Two messages that differ in the format only, in terms of the frame builders.\<close>

lemma format_not_read:
  assumes "\<forall>k. k \<noteq> ''params'' \<longrightarrow> map_of msg1 k = map_of msg2 k"
      and "map_of msg1 ''params'' = Some (JObj p1)"
      and "map_of msg2 ''params'' = Some (JObj p2)"
      and "\<forall>k. k \<noteq> ''format'' \<longrightarrow> map_of p1 k = map_of p2 k"
      and "on_message env oai (Json (JObj msg1)) c = (r1, c1)"
      and "on_message env oai (Json (JObj msg2)) c = (r2, c2)"
  shows "r1 = r2 \<and> calls c1 = calls c2 \<and> world c1 = world c2
       \<and> (\<forall>args text usage w.
            calls c1 = calls c @ [args] \<and> oai args (world c) = (Completed text usage, w) \<longrightarrow>
              sent c1 = sent c @ [ok_result (dict_get msg1 ''id'' (JStr ''unknown'')) text
                                     (dict_get p1 ''format'' (JStr ''markdown'')) usage]
            \<and> sent c2 = sent c @ [ok_result (dict_get msg1 ''id'' (JStr ''unknown'')) text
                                     (dict_get p2 ''format'' (JStr ''markdown'')) usage])"
proof -
  have eq: "dict_get msg1 ''type'' x = dict_get msg2 ''type'' x"
           "dict_get msg1 ''id'' x = dict_get msg2 ''id'' x"
           "dict_get msg1 ''method'' x = dict_get msg2 ''method'' x" for x
    using assms(1) by (simp_all add: dict_get_def)
  have par: "dict_get msg1 ''params'' x = JObj p1" "dict_get msg2 ''params'' x = JObj p2" for x
    using assms(2,3) by (simp_all add: dict_get_present)
  have peq: "dict_get p1 ''prompt'' x = dict_get p2 ''prompt'' x"
            "dict_get p1 ''system'' x = dict_get p2 ''system'' x"
            "dict_get p1 ''model'' x = dict_get p2 ''model'' x"
            "dict_get p1 ''temperature'' x = dict_get p2 ''temperature'' x" for x
    using assms(4) by (simp_all add: dict_get_def)
  define rid where "rid = dict_get msg1 ''id'' (JStr ''unknown'')"
  show ?thesis
  proof (cases "dict_get msg1 ''type'' JNull = JStr ''request''
                \<and> dict_get msg1 ''method'' JNull = JStr ''llm.generate''")
    case True
    then have g1: "llm_generate env oai rid (JObj p1) c = (r1, c1)"
      using assms(5) par by (simp add: Let_def rid_def)
    from True have g2: "llm_generate env oai rid (JObj p2) c = (r2, c2)"
      using assms(6) par eq[symmetric] by (simp add: Let_def rid_def)
    from llm_generate_format[OF assms(4), of env oai rid c] g1 g2
    have main: "r1 = r2 \<and> calls c1 = calls c2 \<and> world c1 = world c2"
      by simp
    have succ: "sent c1 = sent c @ [ok_result rid tx (dict_get p1 ''format'' (JStr ''markdown'')) us]
              \<and> sent c2 = sent c @ [ok_result rid tx (dict_get p2 ''format'' (JStr ''markdown'')) us]"
      if inv: "calls c1 = calls c @ [args]" and ok: "oai args (world c) = (Completed tx us, w)"
      for args tx us w
    proof -
      from llm_generate_invoked[OF g1 inv] obtain pr t
        where pr: "dict_get p1 ''prompt'' (JStr '''') = JStr pr" "strip pr \<noteq> []"
          and t: "py_float env (dict_get p1 ''temperature'' (JFloat (float_0_2 env))) = Inr t"
          and args: "args = \<lparr>arg_model = dict_get p1 ''model'' (JStr (OPENAI_MODEL env)),
                    arg_temperature = t,
                    arg_messages = [
                      JObj [(''role'', JStr ''system''),
                            (''content'', dict_get p1 ''system'' (JStr ''You are a helpful assistant.''))],
                      JObj [(''role'', JStr ''user''), (''content'', JStr pr)]]\<rparr>"
        by auto
      from llm_generate_run[OF pr t args, of oai rid c] g1 ok
      have c1: "c1 = ws_send (ok_result rid tx (dict_get p1 ''format'' (JStr ''markdown'')) us)
                       (c\<lparr>calls := calls c @ [args], world := w\<rparr>)"
        by simp
      from pr t args
      have "dict_get p2 ''prompt'' (JStr '''') = JStr pr"
        and "py_float env (dict_get p2 ''temperature'' (JFloat (float_0_2 env))) = Inr t"
        and "args = \<lparr>arg_model = dict_get p2 ''model'' (JStr (OPENAI_MODEL env)),
                    arg_temperature = t,
                    arg_messages = [
                      JObj [(''role'', JStr ''system''),
                            (''content'', dict_get p2 ''system'' (JStr ''You are a helpful assistant.''))],
                      JObj [(''role'', JStr ''user''), (''content'', JStr pr)]]\<rparr>"
        by (simp_all add: peq)
      from llm_generate_run[OF this(1) pr(2) this(2,3), of oai rid c] g2 ok
      have c2: "c2 = ws_send (ok_result rid tx (dict_get p2 ''format'' (JStr ''markdown'')) us)
                       (c\<lparr>calls := calls c @ [args], world := w\<rparr>)"
        by simp
      from c1 c2 show ?thesis by (simp add: ws_send_def)
    qed
    from main succ show ?thesis
      unfolding rid_def by blast
  next
    case False
    with assms(5) have 1: "r1 = None \<and> calls c1 = calls c \<and> world c1 = world c"
      by (auto simp: Let_def ws_send_def split: if_splits)
    from False assms(6) have 2: "r2 = None \<and> calls c2 = calls c \<and> world c2 = world c"
      using eq[symmetric] by (auto simp: Let_def ws_send_def split: if_splits)
    from 1 2 show ?thesis by simp
  qed
qed

text \<open>
  Two requests with the prompt \<^verbatim>\<open>hi\<close>, one with the format \<^verbatim>\<open>html\<close> and one with none.
\<close>

section \<open>The handshake\<close>

text \<open>
  Claim C4 says that a first message that fails to decode as JSON is answered by exactly
  one result with id \<^verbatim>\<open>init\<close>, ok false and error code \<^verbatim>\<open>BadJSON\<close>, that no ready
  announcement is sent and that the handler returns without entering the loop; and that
  a first message that decodes is answered by exactly one ready announcement, whatever
  its content. The handler does the first only when \<^verbatim>\<open>json.loads\<close> raises JSONDecodeError:
  the \<^verbatim>\<open>except\<close> of line 28 names that class alone. On a first message on which
  \<^verbatim>\<open>json.loads\<close> raises another exception (RecursionError on a long run of \<^verbatim>\<open>[\<close>, which
  is no JSON) nothing is sent and the exception leaves the handler. The three cases of
  the first message: on JSONDecodeError the one result is sent and the handler returns,
  whatever else the client has sent (\<open>rest\<close>); on another exception \<open>e\<close> of the decoder
  nothing is sent and \<open>e\<close> is raised; on a decoded value \<open>init\<close> the ready announcement is
  the first frame sent and no later frame is a ready announcement.
\<close>

theorem handshake:
  "handle env oai (Bad_json # rest) c =
     (None, c\<lparr>sent := sent c @ [
        JObj [(''type'', JStr ''result''), (''id'', JStr ''init''), (''ok'', JBool False),
              (''error'', JObj [(''code'', JStr ''BadJSON''),
                               (''message'', JStr ''Initialize must be JSON'')])]]\<rparr>)
   \<and> handle env oai (Loads_raises e # rest) c = (Some e, c)
   \<and> (\<exists>fs. sent (snd (handle env oai (Json init # rest) c)) =
              sent c @ JObj [(''type'', JStr ''ready''), (''server'', JStr ''sample-mcp-server''),
                             (''capabilities'', JArr [JStr ''llm.generate''])] # fs
            \<and> JObj [(''type'', JStr ''ready''), (''server'', JStr ''sample-mcp-server''),
                     (''capabilities'', JArr [JStr ''llm.generate''])] \<notin> set fs)"
proof -
  have rd: "(ready :: 'a json) = JObj [(''type'', JStr ''ready''), (''server'', JStr ''sample-mcp-server''),
                             (''capabilities'', JArr [JStr ''llm.generate''])]"
    by (simp add: ready_def SERVER_NAME_def CAPS_def)
  obtain r c' where run: "serve env oai rest (ws_send ready c) = (r, c')"
    by (cases "serve env oai rest (ws_send ready c)")
  from serve_frames[OF run] obtain fs where "sent c' = sent c @ ready # fs" "ready \<notin> set fs"
    by (auto simp: ws_send_def)
  with run have "\<exists>fs. sent (snd (handle env oai (Json init # rest) c)) = sent c @ ready # fs
            \<and> ready \<notin> set fs"
    by auto
  then show ?thesis
    unfolding rd by (simp add: ws_send_def error_result_def)
qed

text \<open>
  A connection whose first message makes \<^verbatim>\<open>json.loads\<close> raise RecursionError: nothing is
  sent. A connection whose first message makes it raise JSONDecodeError: the one
  \<^verbatim>\<open>BadJSON\<close> result with id \<^verbatim>\<open>init\<close> is sent.
\<close>

theorem handshake_witness:
  "handle env0 oai0 [Loads_raises RecursionError, Json (JObj [])] conn0 =
     (Some RecursionError, \<lparr>sent = [], calls = [], world = ()\<rparr>)
   \<and> handle env0 oai0 [Bad_json, Json (JObj [])] conn0 =
     (None, \<lparr>sent = [
        JObj [(''type'', JStr ''result''), (''id'', JStr ''init''), (''ok'', JBool False),
              (''error'', JObj [(''code'', JStr ''BadJSON''),
                               (''message'', JStr ''Initialize must be JSON'')])]],
      calls = [], world = ()\<rparr>)"
  using handshake[of env0 oai0 "[Json (JObj [])]" conn0 RecursionError]
  by (simp add: conn0_def del: handle.simps)

section \<open>Messages that are not requests\<close>

text \<open>
  Claim C5 says that every message received after the handshake that fails to decode as
  JSON is answered by one result with id \<^verbatim>\<open>unknown\<close>, ok false and error code
  \<^verbatim>\<open>BadJSON\<close>, and that the loop goes on. The handler does so only when \<^verbatim>\<open>json.loads\<close>
  raises JSONDecodeError, the class that the \<^verbatim>\<open>except\<close> of line 53 names. On a message on
  which \<^verbatim>\<open>json.loads\<close> raises another exception \<open>e\<close> (RecursionError on a long run of
  \<^verbatim>\<open>[\<close>) no frame is sent, \<open>e\<close> leaves the handler and the messages after it are never
  served.
\<close>

theorem bad_json_in_loop:
  "on_message env oai Bad_json c =
     (None, c\<lparr>sent := sent c @ [
        JObj [(''type'', JStr ''result''), (''id'', JStr ''unknown''), (''ok'', JBool False),
              (''error'', JObj [(''code'', JStr ''BadJSON''),
                               (''message'', JStr ''Request must be JSON'')])]]\<rparr>)
   \<and> serve env oai (Bad_json # rest) c =
       serve env oai rest
         (c\<lparr>sent := sent c @ [
            JObj [(''type'', JStr ''result''), (''id'', JStr ''unknown''), (''ok'', JBool False),
                  (''error'', JObj [(''code'', JStr ''BadJSON''),
                                   (''message'', JStr ''Request must be JSON'')])]]\<rparr>)
   \<and> on_message env oai (Loads_raises e) c = (Some e, c)
   \<and> serve env oai (Loads_raises e # rest) c = (Some e, c)"
  by (simp add: ws_send_def error_result_def)

text \<open>
  A handshake, then a message on which \<^verbatim>\<open>json.loads\<close> raises RecursionError, then one
  that would have been answered: only the ready announcement is sent. A handshake and
  two messages on which it raises JSONDecodeError: the ready announcement and two
  \<^verbatim>\<open>BadJSON\<close> results are sent.
\<close>

theorem bad_json_in_loop_witness:
  "handle env0 oai0 [Json (JObj []), Loads_raises RecursionError, Bad_json] conn0 =
     (Some RecursionError, \<lparr>sent = [
        JObj [(''type'', JStr ''ready''), (''server'', JStr ''sample-mcp-server''),
              (''capabilities'', JArr [JStr ''llm.generate''])]],
      calls = [], world = ()\<rparr>)
   \<and> handle env0 oai0 [Json (JObj []), Bad_json, Bad_json] conn0 =
     (None, \<lparr>sent = [
        JObj [(''type'', JStr ''ready''), (''server'', JStr ''sample-mcp-server''),
              (''capabilities'', JArr [JStr ''llm.generate''])],
        JObj [(''type'', JStr ''result''), (''id'', JStr ''unknown''), (''ok'', JBool False),
              (''error'', JObj [(''code'', JStr ''BadJSON''),
                               (''message'', JStr ''Request must be JSON'')])],
        JObj [(''type'', JStr ''result''), (''id'', JStr ''unknown''), (''ok'', JBool False),
              (''error'', JObj [(''code'', JStr ''BadJSON''),
                               (''message'', JStr ''Request must be JSON'')])]],
      calls = [], world = ()\<rparr>)"
  using bad_json_in_loop[of env0 oai0 "ws_send ready conn0" "[Bad_json]" RecursionError]
        bad_json_in_loop[of env0 oai0 _ "[]"]
  by (simp add: ws_send_def ready_def conn0_def SERVER_NAME_def CAPS_def
        del: on_message.simps serve.simps(2))



section \<open>Unknown methods\<close>



section \<open>Generation\<close>

text \<open>
  Claim C7 says that every request for \<^verbatim>\<open>llm.generate\<close> with a prompt that is not blank,
  where the backend succeeds, is answered by one result with ok true. As stated it
  fails: the temperature is coerced on line 80, outside the \<^verbatim>\<open>try\<close>, and when \<^verbatim>\<open>float\<close>
  rejects it the request gets no frame, also with a backend that answers every call.
  Here the prompt is \<^verbatim>\<open>hi\<close>, the temperature is \<^verbatim>\<open>null\<close>, and the backend answers
  \<^verbatim>\<open>hello\<close> to every call.
\<close>

theorem generate_success_counterexample:
  "oai0 \<lparr>arg_model = JStr ''gpt-4o-mini'', arg_temperature = 2 / 10,
          arg_messages = [
            JObj [(''role'', JStr ''system''), (''content'', JStr ''You are a helpful assistant.'')],
            JObj [(''role'', JStr ''user''), (''content'', JStr ''hi'')]]\<rparr> ()
     = (Completed (Some ''hello'') None, ())
   \<and> on_message env0 oai0
       (Json (JObj [(''type'', JStr ''request''), (''id'', JStr ''r1''),
                    (''method'', JStr ''llm.generate''),
                    (''params'', JObj [(''prompt'', JStr ''hi''), (''temperature'', JNull)])]))
       conn0 = (Some TypeError, \<lparr>sent = [], calls = [], world = ()\<rparr>)"
  by (simp add: oai0_def dict_get_def llm_generate_def Let_def conn0_def)

text \<open>
  Claim C7, amended. Take a request of type \<^verbatim>\<open>request\<close> with method \<^verbatim>\<open>llm.generate\<close> whose
  parameters hold a prompt that is a string with a character that is not whitespace
  (the whitespace characters are those with the code points listed), and whose
  temperature \<^verbatim>\<open>float\<close> accepts, giving \<open>t\<close>: the literal 0.2 when the parameters give
  none, the float itself, the conversion of an int or a bool, or the parse of a str.
  The backend call \<open>args\<close> for it has the model of the parameters or else the configured
  default model, the temperature \<open>t\<close>, the system prompt of the parameters or else
  \<^verbatim>\<open>You are a helpful assistant.\<close>, and the prompt. If the backend succeeds on that call,
  nothing is raised, the call is made, and exactly one frame is sent: the result with
  the request's id, ok true and the data made of the backend's text, the format
  (\<^verbatim>\<open>markdown\<close> unless the parameters give one) and the usage statistics as a mapping
  (the empty mapping when the backend gave none).
\<close>

theorem generate_success:
  assumes "map_of msg ''type'' = Some (JStr ''request'')"
      and "map_of msg ''method'' = Some (JStr ''llm.generate'')"
      and "map_of msg ''params'' = Some (JObj p)"
      and "map_of p ''prompt'' = Some (JStr pr)"
      and "\<exists>ch\<in>set pr. (of_char ch :: nat) \<notin> {9, 10, 11, 12, 13, 28, 29, 30, 31, 32, 133, 160}"
      and "case map_of p ''temperature'' of
             None \<Rightarrow> t = float_0_2 env
           | Some (JFloat x) \<Rightarrow> t = x
           | Some (JInt i) \<Rightarrow> float_of_int env i = Some t
           | Some (JBool b) \<Rightarrow> float_of_int env (if b then 1 else 0) = Some t
           | Some (JStr s) \<Rightarrow> float_of_str env s = Some t
           | Some v \<Rightarrow> False"
      and "args = \<lparr>arg_model = (case map_of p ''model'' of
                                    None \<Rightarrow> JStr (OPENAI_MODEL env) | Some v \<Rightarrow> v),
                    arg_temperature = t,
                    arg_messages = [
                      JObj [(''role'', JStr ''system''),
                            (''content'', case map_of p ''system'' of
                                           None \<Rightarrow> JStr ''You are a helpful assistant.''
                                         | Some v \<Rightarrow> v)],
                      JObj [(''role'', JStr ''user''), (''content'', JStr pr)]]\<rparr>"
      and "oai args (world c) = (Completed reply_text reply_usage, w)"
  shows "on_message env oai (Json (JObj msg)) c =
           (None, c\<lparr>sent := sent c @ [
              JObj [(''type'', JStr ''result''),
                    (''id'', case map_of msg ''id'' of None \<Rightarrow> JStr ''unknown'' | Some i \<Rightarrow> i),
                    (''ok'', JBool True),
                    (''data'', JObj [
                       (''text'', case reply_text of None \<Rightarrow> JNull | Some s \<Rightarrow> JStr s),
                       (''format'', case map_of p ''format'' of
                                      None \<Rightarrow> JStr ''markdown'' | Some v \<Rightarrow> v),
                       (''usage'', case reply_usage of None \<Rightarrow> JObj [] | Some u \<Rightarrow> JObj u)])]],
              calls := calls c @ [args], world := w\<rparr>)"
  using assms by (rule on_message_completed)

text \<open>
  The request \<^verbatim>\<open>{"type":"request","id":"r1","method":"llm.generate","params":{"prompt":"hi"}}\<close>
  with a backend that answers \<^verbatim>\<open>hello\<close> and reports no usage.
\<close>

theorem generate_success_witness:
  "on_message env0 oai0
     (Json (JObj [(''type'', JStr ''request''), (''id'', JStr ''r1''),
                  (''method'', JStr ''llm.generate''),
                  (''params'', JObj [(''prompt'', JStr ''hi'')])])) conn0 =
     (None,
      \<lparr>sent = [
         JObj [(''type'', JStr ''result''), (''id'', JStr ''r1''), (''ok'', JBool True),
               (''data'', JObj [(''text'', JStr ''hello''), (''format'', JStr ''markdown''),
                               (''usage'', JObj [])])]],
       calls = [
         \<lparr>arg_model = JStr ''gpt-4o-mini'', arg_temperature = 2 / 10,
          arg_messages = [
            JObj [(''role'', JStr ''system''), (''content'', JStr ''You are a helpful assistant.'')],
            JObj [(''role'', JStr ''user''), (''content'', JStr ''hi'')]]\<rparr>],
       world = ()\<rparr>)"
proof -
  define p :: "(string \<times> rat json) list" where "p = [(''prompt'', JStr ''hi'')]"
  define msg :: "(string \<times> rat json) list" where
    "msg = [(''type'', JStr ''request''), (''id'', JStr ''r1''),
            (''method'', JStr ''llm.generate''), (''params'', JObj p)]"
  define args :: "rat create_args" where
    "args = \<lparr>arg_model = JStr ''gpt-4o-mini'', arg_temperature = 2 / 10,
          arg_messages = [
            JObj [(''role'', JStr ''system''), (''content'', JStr ''You are a helpful assistant.'')],
            JObj [(''role'', JStr ''user''), (''content'', JStr ''hi'')]]\<rparr>"
  have h1: "map_of msg ''type'' = Some (JStr ''request'')"
    and h2: "map_of msg ''method'' = Some (JStr ''llm.generate'')"
    and h3: "map_of msg ''params'' = Some (JObj p)"
    and h4: "map_of p ''prompt'' = Some (JStr ''hi'')"
    and h5: "\<exists>ch\<in>set ''hi''. (of_char ch :: nat) \<notin> {9, 10, 11, 12, 13, 28, 29, 30, 31, 32, 133, 160}"
    by (simp_all add: msg_def p_def)
  have h6: "case map_of p ''temperature'' of
             None \<Rightarrow> (2 / 10 :: rat) = float_0_2 env0
           | Some (JFloat x) \<Rightarrow> 2 / 10 = x
           | Some (JInt i) \<Rightarrow> float_of_int env0 i = Some (2 / 10)
           | Some (JBool b) \<Rightarrow> float_of_int env0 (if b then 1 else 0) = Some (2 / 10)
           | Some (JStr s) \<Rightarrow> float_of_str env0 s = Some (2 / 10)
           | Some v \<Rightarrow> False"
    by (simp add: p_def env0_def)
  have h7: "args = \<lparr>arg_model = (case map_of p ''model'' of
                                    None \<Rightarrow> JStr (OPENAI_MODEL env0) | Some v \<Rightarrow> v),
                    arg_temperature = 2 / 10,
                    arg_messages = [
                      JObj [(''role'', JStr ''system''),
                            (''content'', case map_of p ''system'' of
                                           None \<Rightarrow> JStr ''You are a helpful assistant.''
                                         | Some v \<Rightarrow> v)],
                      JObj [(''role'', JStr ''user''), (''content'', JStr ''hi'')]]\<rparr>"
    by (simp add: args_def p_def env0_def)
  have h8: "oai0 args (world conn0) = (Completed (Some ''hello'') None, ())"
    by (simp add: oai0_def)
  from generate_success[where msg = msg and p = p and pr = "''hi''" and env = env0
         and t = "2 / 10" and args = args and oai = oai0 and c = conn0
         and reply_text = "Some ''hello''" and reply_usage = None and w = "()",
         OF h1 h2 h3 h4 h5 h6 h7 h8]
  show ?thesis
    unfolding msg_def p_def args_def
    by (simp add: conn0_def del: on_message.simps)
qed

text \<open>
  Claim C9 says that for every request for \<^verbatim>\<open>llm.generate\<close> whose prompt is a string
  with a character that is not whitespace, the backend is invoked with the prompt as
  supplied. As stated it fails: the temperature is coerced on line 80, before the
  backend is reached, and when \<^verbatim>\<open>float\<close> rejects it no backend call is made. Here the
  prompt is \<^verbatim>\<open>hi\<close> and the temperature is \<^verbatim>\<open>null\<close>.
\<close>

theorem prompt_passed_unstripped_counterexample:
  "strip ''hi'' = ''hi''
   \<and> on_message env0 oai0
       (Json (JObj [(''type'', JStr ''request''), (''id'', JStr ''r1''),
                    (''method'', JStr ''llm.generate''),
                    (''params'', JObj [(''prompt'', JStr ''hi''), (''temperature'', JNull)])]))
       conn0 = (Some TypeError, \<lparr>sent = [], calls = [], world = ()\<rparr>)"
  by (simp add: strip_def isspace_def dict_get_def llm_generate_def Let_def conn0_def)

text \<open>
  Claim C9, amended. For every request for \<^verbatim>\<open>llm.generate\<close> whose prompt is a string
  with a character that is not whitespace and whose temperature (the literal 0.2 when
  the parameters give none) \<^verbatim>\<open>float\<close> accepts, the backend is invoked, once, and the
  user message of the call holds the prompt exactly as supplied: \<^verbatim>\<open>strip\<close> serves the
  check of blankness only, and leading and trailing whitespace reaches the backend.
\<close>

theorem prompt_passed_unstripped:
  assumes "map_of msg ''type'' = Some (JStr ''request'')"
      and "map_of msg ''method'' = Some (JStr ''llm.generate'')"
      and "map_of msg ''params'' = Some (JObj p)"
      and "map_of p ''prompt'' = Some (JStr pr)"
      and "\<exists>ch\<in>set pr. \<not> isspace ch"
      and "py_float env (dict_get p ''temperature'' (JFloat (float_0_2 env))) = Inr t"
  shows "calls (snd (on_message env oai (Json (JObj msg)) c)) =
           calls c @ [\<lparr>arg_model = dict_get p ''model'' (JStr (OPENAI_MODEL env)),
                        arg_temperature = t,
                        arg_messages = [
                          JObj [(''role'', JStr ''system''),
                                (''content'', dict_get p ''system'' (JStr ''You are a helpful assistant.''))],
                          JObj [(''role'', JStr ''user''), (''content'', JStr pr)]]\<rparr>]"
proof -
  have pr: "dict_get p ''prompt'' (JStr '''') = JStr pr" "strip pr \<noteq> []"
    using assms(4,5) by (simp_all add: dict_get_present strip_empty)
  have "on_message env oai (Json (JObj msg)) c =
          llm_generate env oai (dict_get msg ''id'' (JStr ''unknown'')) (JObj p) c"
    using assms(1,2,3) by (simp add: on_message_generate dict_get_present)
  then show ?thesis
    by (simp add: llm_generate_run[OF pr assms(6) refl] ws_send_def)
qed

text \<open>A prompt with whitespace on both sides and the temperature 1.\<close>

theorem prompt_passed_unstripped_witness:
  "calls (snd (on_message env0 oai0
       (Json (JObj [(''type'', JStr ''request''), (''id'', JStr ''r1''),
                    (''method'', JStr ''llm.generate''),
                    (''params'', JObj [(''prompt'', JStr ''  hi ''), (''temperature'', JInt 1)])]))
       conn0)) =
     [\<lparr>arg_model = JStr ''gpt-4o-mini'', arg_temperature = 1,
       arg_messages = [
         JObj [(''role'', JStr ''system''), (''content'', JStr ''You are a helpful assistant.'')],
         JObj [(''role'', JStr ''user''), (''content'', JStr ''  hi '')]]\<rparr>]"
proof -
  define p :: "(string \<times> rat json) list" where
    "p = [(''prompt'', JStr ''  hi ''), (''temperature'', JInt 1)]"
  define msg :: "(string \<times> rat json) list" where
    "msg = [(''type'', JStr ''request''), (''id'', JStr ''r1''),
            (''method'', JStr ''llm.generate''), (''params'', JObj p)]"
  have h1: "map_of msg ''type'' = Some (JStr ''request'')"
    and h2: "map_of msg ''method'' = Some (JStr ''llm.generate'')"
    and h3: "map_of msg ''params'' = Some (JObj p)"
    and h4: "map_of p ''prompt'' = Some (JStr ''  hi '')"
    and h5: "\<exists>ch\<in>set ''  hi ''. \<not> isspace ch"
    and h6: "py_float env0 (dict_get p ''temperature'' (JFloat (float_0_2 env0))) = Inr 1"
    by (simp_all add: msg_def p_def isspace_def dict_get_def env0_def)
  from prompt_passed_unstripped[OF h1 h2 h3 h4 h5 h6, of oai0 conn0]
  show ?thesis
    unfolding msg_def p_def
    by (simp add: conn0_def dict_get_def env0_def del: on_message.simps)
qed

text \<open>
  Claim C10. The parameter \<^verbatim>\<open>format\<close> has no influence on the backend invocation.
  Take two messages that agree on every field but \<^verbatim>\<open>params\<close>, whose parameters agree on
  every key but \<^verbatim>\<open>format\<close> (which each may have or lack), handled from the same state:
  both raise or both go on, they make the same backend calls and leave the backend in
  the same state. Whenever handling the first made a backend call that succeeded, each
  of the two results carries in its data, under \<^verbatim>\<open>format\<close>, the value its own request
  supplied, or \<^verbatim>\<open>markdown\<close> when it supplied none. And that happens: when the messages
  are requests for \<^verbatim>\<open>llm.generate\<close> with a prompt that is not blank and a temperature
  that \<^verbatim>\<open>float\<close> accepts, and the backend succeeds on the call, both make that one call
  and both send such a result.
\<close>

theorem format_is_echoed:
  assumes "\<forall>k. k \<noteq> ''params'' \<longrightarrow> map_of msg1 k = map_of msg2 k"
      and "map_of msg1 ''params'' = Some (JObj p1)"
      and "map_of msg2 ''params'' = Some (JObj p2)"
      and "\<forall>k. k \<noteq> ''format'' \<longrightarrow> map_of p1 k = map_of p2 k"
      and "on_message env oai (Json (JObj msg1)) c = (r1, c1)"
      and "on_message env oai (Json (JObj msg2)) c = (r2, c2)"
  shows "r1 = r2 \<and> calls c1 = calls c2 \<and> world c1 = world c2
       \<and> (\<forall>args reply_text reply_usage w.
            calls c1 = calls c @ [args]
            \<and> oai args (world c) = (Completed reply_text reply_usage, w) \<longrightarrow>
              sent c1 = sent c @ [
                JObj [(''type'', JStr ''result''),
                      (''id'', case map_of msg1 ''id'' of None \<Rightarrow> JStr ''unknown'' | Some i \<Rightarrow> i),
                      (''ok'', JBool True),
                      (''data'', JObj [
                         (''text'', case reply_text of None \<Rightarrow> JNull | Some s \<Rightarrow> JStr s),
                         (''format'', case map_of p1 ''format'' of
                                        None \<Rightarrow> JStr ''markdown'' | Some v \<Rightarrow> v),
                         (''usage'', case reply_usage of None \<Rightarrow> JObj [] | Some u \<Rightarrow> JObj u)])]]
            \<and> sent c2 = sent c @ [
                JObj [(''type'', JStr ''result''),
                      (''id'', case map_of msg1 ''id'' of None \<Rightarrow> JStr ''unknown'' | Some i \<Rightarrow> i),
                      (''ok'', JBool True),
                      (''data'', JObj [
                         (''text'', case reply_text of None \<Rightarrow> JNull | Some s \<Rightarrow> JStr s),
                         (''format'', case map_of p2 ''format'' of
                                        None \<Rightarrow> JStr ''markdown'' | Some v \<Rightarrow> v),
                         (''usage'', case reply_usage of None \<Rightarrow> JObj [] | Some u \<Rightarrow> JObj u)])]])
       \<and> (\<forall>pr t args reply_text reply_usage w.
            map_of msg1 ''type'' = Some (JStr ''request'')
            \<and> map_of msg1 ''method'' = Some (JStr ''llm.generate'')
            \<and> map_of p1 ''prompt'' = Some (JStr pr)
            \<and> (\<exists>ch\<in>set pr. (of_char ch :: nat) \<notin> {9, 10, 11, 12, 13, 28, 29, 30, 31, 32, 133, 160})
            \<and> (case map_of p1 ''temperature'' of
                  None \<Rightarrow> t = float_0_2 env
                | Some (JFloat x) \<Rightarrow> t = x
                | Some (JInt i) \<Rightarrow> float_of_int env i = Some t
                | Some (JBool b) \<Rightarrow> float_of_int env (if b then 1 else 0) = Some t
                | Some (JStr s) \<Rightarrow> float_of_str env s = Some t
                | Some v \<Rightarrow> False)
            \<and> args = \<lparr>arg_model = (case map_of p1 ''model'' of
                                         None \<Rightarrow> JStr (OPENAI_MODEL env) | Some v \<Rightarrow> v),
                        arg_temperature = t,
                        arg_messages = [
                          JObj [(''role'', JStr ''system''),
                                (''content'', case map_of p1 ''system'' of
                                               None \<Rightarrow> JStr ''You are a helpful assistant.''
                                             | Some v \<Rightarrow> v)],
                          JObj [(''role'', JStr ''user''), (''content'', JStr pr)]]\<rparr>
            \<and> oai args (world c) = (Completed reply_text reply_usage, w) \<longrightarrow>
              calls c1 = calls c @ [args] \<and> calls c2 = calls c @ [args]
            \<and> sent c1 = sent c @ [
                JObj [(''type'', JStr ''result''),
                      (''id'', case map_of msg1 ''id'' of None \<Rightarrow> JStr ''unknown'' | Some i \<Rightarrow> i),
                      (''ok'', JBool True),
                      (''data'', JObj [
                         (''text'', case reply_text of None \<Rightarrow> JNull | Some s \<Rightarrow> JStr s),
                         (''format'', case map_of p1 ''format'' of
                                        None \<Rightarrow> JStr ''markdown'' | Some v \<Rightarrow> v),
                         (''usage'', case reply_usage of None \<Rightarrow> JObj [] | Some u \<Rightarrow> JObj u)])]]
            \<and> sent c2 = sent c @ [
                JObj [(''type'', JStr ''result''),
                      (''id'', case map_of msg1 ''id'' of None \<Rightarrow> JStr ''unknown'' | Some i \<Rightarrow> i),
                      (''ok'', JBool True),
                      (''data'', JObj [
                         (''text'', case reply_text of None \<Rightarrow> JNull | Some s \<Rightarrow> JStr s),
                         (''format'', case map_of p2 ''format'' of
                                        None \<Rightarrow> JStr ''markdown'' | Some v \<Rightarrow> v),
                         (''usage'', case reply_usage of None \<Rightarrow> JObj [] | Some u \<Rightarrow> JObj u)])]])"
proof -
  note aux = format_not_read[OF assms]
  have part1: "r1 = r2 \<and> calls c1 = calls c2 \<and> world c1 = world c2"
    using aux by blast
  have part2: "sent c1 = sent c @ [
                JObj [(''type'', JStr ''result''),
                      (''id'', case map_of msg1 ''id'' of None \<Rightarrow> JStr ''unknown'' | Some i \<Rightarrow> i),
                      (''ok'', JBool True),
                      (''data'', JObj [
                         (''text'', case tx of None \<Rightarrow> JNull | Some s \<Rightarrow> JStr s),
                         (''format'', case map_of p1 ''format'' of
                                        None \<Rightarrow> JStr ''markdown'' | Some v \<Rightarrow> v),
                         (''usage'', case us of None \<Rightarrow> JObj [] | Some u \<Rightarrow> JObj u)])]]
            \<and> sent c2 = sent c @ [
                JObj [(''type'', JStr ''result''),
                      (''id'', case map_of msg1 ''id'' of None \<Rightarrow> JStr ''unknown'' | Some i \<Rightarrow> i),
                      (''ok'', JBool True),
                      (''data'', JObj [
                         (''text'', case tx of None \<Rightarrow> JNull | Some s \<Rightarrow> JStr s),
                         (''format'', case map_of p2 ''format'' of
                                        None \<Rightarrow> JStr ''markdown'' | Some v \<Rightarrow> v),
                         (''usage'', case us of None \<Rightarrow> JObj [] | Some u \<Rightarrow> JObj u)])]]"
    if "calls c1 = calls c @ [args]" "oai args (world c) = (Completed tx us, w)"
    for args tx us w
  proof -
    from aux that
    have "sent c1 = sent c @ [ok_result (dict_get msg1 ''id'' (JStr ''unknown'')) tx
                                     (dict_get p1 ''format'' (JStr ''markdown'')) us]
        \<and> sent c2 = sent c @ [ok_result (dict_get msg1 ''id'' (JStr ''unknown'')) tx
                                     (dict_get p2 ''format'' (JStr ''markdown'')) us]"
      by blast
    then show ?thesis
      by (simp add: ok_result_def dict_get_def)
  qed
  have part3: "calls c1 = calls c @ [args] \<and> calls c2 = calls c @ [args]
            \<and> sent c1 = sent c @ [
                JObj [(''type'', JStr ''result''),
                      (''id'', case map_of msg1 ''id'' of None \<Rightarrow> JStr ''unknown'' | Some i \<Rightarrow> i),
                      (''ok'', JBool True),
                      (''data'', JObj [
                         (''text'', case tx of None \<Rightarrow> JNull | Some s \<Rightarrow> JStr s),
                         (''format'', case map_of p1 ''format'' of
                                        None \<Rightarrow> JStr ''markdown'' | Some v \<Rightarrow> v),
                         (''usage'', case us of None \<Rightarrow> JObj [] | Some u \<Rightarrow> JObj u)])]]
            \<and> sent c2 = sent c @ [
                JObj [(''type'', JStr ''result''),
                      (''id'', case map_of msg1 ''id'' of None \<Rightarrow> JStr ''unknown'' | Some i \<Rightarrow> i),
                      (''ok'', JBool True),
                      (''data'', JObj [
                         (''text'', case tx of None \<Rightarrow> JNull | Some s \<Rightarrow> JStr s),
                         (''format'', case map_of p2 ''format'' of
                                        None \<Rightarrow> JStr ''markdown'' | Some v \<Rightarrow> v),
                         (''usage'', case us of None \<Rightarrow> JObj [] | Some u \<Rightarrow> JObj u)])]]"
    if ty: "map_of msg1 ''type'' = Some (JStr ''request'')"
      and me: "map_of msg1 ''method'' = Some (JStr ''llm.generate'')"
      and pr: "map_of p1 ''prompt'' = Some (JStr pr)"
      and nb: "\<exists>ch\<in>set pr. (of_char ch :: nat) \<notin> {9, 10, 11, 12, 13, 28, 29, 30, 31, 32, 133, 160}"
      and co: "case map_of p1 ''temperature'' of
                  None \<Rightarrow> t = float_0_2 env
                | Some (JFloat x) \<Rightarrow> t = x
                | Some (JInt i) \<Rightarrow> float_of_int env i = Some t
                | Some (JBool b) \<Rightarrow> float_of_int env (if b then 1 else 0) = Some t
                | Some (JStr s) \<Rightarrow> float_of_str env s = Some t
                | Some v \<Rightarrow> False"
      and ar: "args = \<lparr>arg_model = (case map_of p1 ''model'' of
                                         None \<Rightarrow> JStr (OPENAI_MODEL env) | Some v \<Rightarrow> v),
                        arg_temperature = t,
                        arg_messages = [
                          JObj [(''role'', JStr ''system''),
                                (''content'', case map_of p1 ''system'' of
                                               None \<Rightarrow> JStr ''You are a helpful assistant.''
                                             | Some v \<Rightarrow> v)],
                          JObj [(''role'', JStr ''user''), (''content'', JStr pr)]]\<rparr>"
      and ok: "oai args (world c) = (Completed tx us, w)"
    for pr t args tx us w
  proof -
    have k: "map_of msg2 ''type'' = map_of msg1 ''type''"
            "map_of msg2 ''method'' = map_of msg1 ''method''"
            "map_of msg2 ''id'' = map_of msg1 ''id''"
      using assms(1) by simp_all
    have kp: "map_of p2 ''prompt'' = map_of p1 ''prompt''"
             "map_of p2 ''temperature'' = map_of p1 ''temperature''"
             "map_of p2 ''model'' = map_of p1 ''model''"
             "map_of p2 ''system'' = map_of p1 ''system''"
      using assms(4) by simp_all
    from on_message_completed[where msg = msg1 and p = p1 and env = env and oai = oai and c = c
           and args = args and t = t and pr = pr and tx = tx and us = us and w = w,
           OF ty me assms(2) pr nb co ar ok] assms(5)
    have 1: "c1 = c\<lparr>sent := sent c @ [
              JObj [(''type'', JStr ''result''),
                    (''id'', case map_of msg1 ''id'' of None \<Rightarrow> JStr ''unknown'' | Some i \<Rightarrow> i),
                    (''ok'', JBool True),
                    (''data'', JObj [
                       (''text'', case tx of None \<Rightarrow> JNull | Some s \<Rightarrow> JStr s),
                       (''format'', case map_of p1 ''format'' of
                                      None \<Rightarrow> JStr ''markdown'' | Some v \<Rightarrow> v),
                       (''usage'', case us of None \<Rightarrow> JObj [] | Some u \<Rightarrow> JObj u)])]],
              calls := calls c @ [args], world := w\<rparr>"
      by simp
    from on_message_completed[where msg = msg2 and p = p2 and env = env and oai = oai and c = c
           and args = args and t = t and pr = pr and tx = tx and us = us and w = w]
         ty me assms(3) pr nb co ar ok assms(6)
    have 2: "c2 = c\<lparr>sent := sent c @ [
              JObj [(''type'', JStr ''result''),
                    (''id'', case map_of msg1 ''id'' of None \<Rightarrow> JStr ''unknown'' | Some i \<Rightarrow> i),
                    (''ok'', JBool True),
                    (''data'', JObj [
                       (''text'', case tx of None \<Rightarrow> JNull | Some s \<Rightarrow> JStr s),
                       (''format'', case map_of p2 ''format'' of
                                      None \<Rightarrow> JStr ''markdown'' | Some v \<Rightarrow> v),
                       (''usage'', case us of None \<Rightarrow> JObj [] | Some u \<Rightarrow> JObj u)])]],
              calls := calls c @ [args], world := w\<rparr>"
      by (simp add: k kp)
    from 1 2 show ?thesis by simp
  qed
  from part1 part2 part3 show ?thesis
    by blast
qed

text \<open>
  Two requests with the prompt \<^verbatim>\<open>hi\<close>, one with the format \<^verbatim>\<open>html\<close> and one with none.
\<close>

theorem format_is_echoed_witness:
  "calls (snd (on_message env0 oai0
      (Json (JObj [(''type'', JStr ''request''), (''id'', JStr ''r1''),
                   (''method'', JStr ''llm.generate''),
                   (''params'', JObj [(''prompt'', JStr ''hi''), (''format'', JStr ''html'')])]))
      conn0)) =
     [\<lparr>arg_model = JStr ''gpt-4o-mini'', arg_temperature = 2 / 10,
       arg_messages = [
         JObj [(''role'', JStr ''system''), (''content'', JStr ''You are a helpful assistant.'')],
         JObj [(''role'', JStr ''user''), (''content'', JStr ''hi'')]]\<rparr>]
   \<and> calls (snd (on_message env0 oai0
      (Json (JObj [(''type'', JStr ''request''), (''id'', JStr ''r1''),
                   (''method'', JStr ''llm.generate''),
                   (''params'', JObj [(''prompt'', JStr ''hi'')])]))
      conn0)) =
     [\<lparr>arg_model = JStr ''gpt-4o-mini'', arg_temperature = 2 / 10,
       arg_messages = [
         JObj [(''role'', JStr ''system''), (''content'', JStr ''You are a helpful assistant.'')],
         JObj [(''role'', JStr ''user''), (''content'', JStr ''hi'')]]\<rparr>]
   \<and> sent (snd (on_message env0 oai0
      (Json (JObj [(''type'', JStr ''request''), (''id'', JStr ''r1''),
                   (''method'', JStr ''llm.generate''),
                   (''params'', JObj [(''prompt'', JStr ''hi''), (''format'', JStr ''html'')])]))
      conn0)) =
       [JObj [(''type'', JStr ''result''), (''id'', JStr ''r1''), (''ok'', JBool True),
              (''data'', JObj [(''text'', JStr ''hello''), (''format'', JStr ''html''),
                              (''usage'', JObj [])])]]
   \<and> sent (snd (on_message env0 oai0
      (Json (JObj [(''type'', JStr ''request''), (''id'', JStr ''r1''),
                   (''method'', JStr ''llm.generate''),
                   (''params'', JObj [(''prompt'', JStr ''hi'')])]))
      conn0)) =
       [JObj [(''type'', JStr ''result''), (''id'', JStr ''r1''), (''ok'', JBool True),
              (''data'', JObj [(''text'', JStr ''hello''), (''format'', JStr ''markdown''),
                              (''usage'', JObj [])])]]"
proof -
  define p1 :: "(string \<times> rat json) list" where
    "p1 = [(''prompt'', JStr ''hi''), (''format'', JStr ''html'')]"
  define p2 :: "(string \<times> rat json) list" where "p2 = [(''prompt'', JStr ''hi'')]"
  define msg1 :: "(string \<times> rat json) list" where
    "msg1 = [(''type'', JStr ''request''), (''id'', JStr ''r1''),
             (''method'', JStr ''llm.generate''), (''params'', JObj p1)]"
  define msg2 :: "(string \<times> rat json) list" where
    "msg2 = [(''type'', JStr ''request''), (''id'', JStr ''r1''),
             (''method'', JStr ''llm.generate''), (''params'', JObj p2)]"
  define args :: "rat create_args" where
    "args = \<lparr>arg_model = JStr ''gpt-4o-mini'', arg_temperature = 2 / 10,
          arg_messages = [
            JObj [(''role'', JStr ''system''), (''content'', JStr ''You are a helpful assistant.'')],
            JObj [(''role'', JStr ''user''), (''content'', JStr ''hi'')]]\<rparr>"
  obtain r1 c1 where run1: "on_message env0 oai0 (Json (JObj msg1)) conn0 = (r1, c1)"
    by (cases "on_message env0 oai0 (Json (JObj msg1)) conn0")
  obtain r2 c2 where run2: "on_message env0 oai0 (Json (JObj msg2)) conn0 = (r2, c2)"
    by (cases "on_message env0 oai0 (Json (JObj msg2)) conn0")
  have h1: "\<forall>k. k \<noteq> ''params'' \<longrightarrow> map_of msg1 k = map_of msg2 k"
    and h2: "map_of msg1 ''params'' = Some (JObj p1)"
    and h3: "map_of msg2 ''params'' = Some (JObj p2)"
    and h4: "\<forall>k. k \<noteq> ''format'' \<longrightarrow> map_of p1 k = map_of p2 k"
    by (simp_all add: msg1_def msg2_def p1_def p2_def)
  have shape: "map_of msg1 ''type'' = Some (JStr ''request'')
            \<and> map_of msg1 ''method'' = Some (JStr ''llm.generate'')
            \<and> map_of p1 ''prompt'' = Some (JStr ''hi'')
            \<and> (\<exists>ch\<in>set ''hi''. (of_char ch :: nat) \<notin> {9, 10, 11, 12, 13, 28, 29, 30, 31, 32, 133, 160})
            \<and> (case map_of p1 ''temperature'' of
                  None \<Rightarrow> (2 / 10 :: rat) = float_0_2 env0
                | Some (JFloat x) \<Rightarrow> 2 / 10 = x
                | Some (JInt i) \<Rightarrow> float_of_int env0 i = Some (2 / 10)
                | Some (JBool b) \<Rightarrow> float_of_int env0 (if b then 1 else 0) = Some (2 / 10)
                | Some (JStr s) \<Rightarrow> float_of_str env0 s = Some (2 / 10)
                | Some v \<Rightarrow> False)
            \<and> args = \<lparr>arg_model = (case map_of p1 ''model'' of
                                         None \<Rightarrow> JStr (OPENAI_MODEL env0) | Some v \<Rightarrow> v),
                        arg_temperature = 2 / 10,
                        arg_messages = [
                          JObj [(''role'', JStr ''system''),
                                (''content'', case map_of p1 ''system'' of
                                               None \<Rightarrow> JStr ''You are a helpful assistant.''
                                             | Some v \<Rightarrow> v)],
                          JObj [(''role'', JStr ''user''), (''content'', JStr ''hi'')]]\<rparr>
            \<and> oai0 args (world conn0) = (Completed (Some ''hello'') None, ())"
    by (simp add: msg1_def p1_def args_def env0_def oai0_def)
  from format_is_echoed[OF h1 h2 h3 h4 run1 run2] shape
  have "calls c1 = calls conn0 @ [args] \<and> calls c2 = calls conn0 @ [args]
      \<and> sent c1 = sent conn0 @ [
                JObj [(''type'', JStr ''result''),
                      (''id'', case map_of msg1 ''id'' of None \<Rightarrow> JStr ''unknown'' | Some i \<Rightarrow> i),
                      (''ok'', JBool True),
                      (''data'', JObj [
                         (''text'', case Some ''hello'' of None \<Rightarrow> JNull | Some s \<Rightarrow> JStr s),
                         (''format'', case map_of p1 ''format'' of
                                        None \<Rightarrow> JStr ''markdown'' | Some v \<Rightarrow> v),
                         (''usage'', case None of None \<Rightarrow> JObj [] | Some u \<Rightarrow> JObj u)])]]
      \<and> sent c2 = sent conn0 @ [
                JObj [(''type'', JStr ''result''),
                      (''id'', case map_of msg1 ''id'' of None \<Rightarrow> JStr ''unknown'' | Some i \<Rightarrow> i),
                      (''ok'', JBool True),
                      (''data'', JObj [
                         (''text'', case Some ''hello'' of None \<Rightarrow> JNull | Some s \<Rightarrow> JStr s),
                         (''format'', case map_of p2 ''format'' of
                                        None \<Rightarrow> JStr ''markdown'' | Some v \<Rightarrow> v),
                         (''usage'', case None of None \<Rightarrow> JObj [] | Some u \<Rightarrow> JObj u)])]]"
    by blast
  with run1 run2 show ?thesis
    unfolding msg1_def msg2_def p1_def p2_def args_def
    by (simp add: conn0_def del: on_message.simps)
qed

section \<open>Exceptions that leave the handler\<close>

text \<open>
  Claim C1 says that every message received in the loop is answered by exactly one
  result, any well-formed JSON payload included, also one that is not an object. The
  handler does not do that: \<^verbatim>\<open>msg.get\<close> on line 62 is called on whatever was decoded, and
  on \<^verbatim>\<open>null\<close>, a bool, a number, a string or an array it raises AttributeError, which
  nothing catches. No frame is sent for the message, the handler ends with the exception
  and the messages after it are never served.
\<close>

theorem non_object_message_raises:
  "on_message env oai (Json JNull) c = (Some AttributeError, c)
   \<and> on_message env oai (Json (JBool b)) c = (Some AttributeError, c)
   \<and> on_message env oai (Json (JInt i)) c = (Some AttributeError, c)
   \<and> on_message env oai (Json (JFloat x)) c = (Some AttributeError, c)
   \<and> on_message env oai (Json (JStr s)) c = (Some AttributeError, c)
   \<and> on_message env oai (Json (JArr xs)) c = (Some AttributeError, c)
   \<and> serve env oai (Json (JArr xs) # rest) c = (Some AttributeError, c)
   \<and> handle env oai (Json init # Json (JArr xs) # rest) c =
       (Some AttributeError, c\<lparr>sent := sent c @ [ready]\<rparr>)"
  by (simp add: ws_send_def)

text \<open>
  A handshake, then the message \<^verbatim>\<open>[]\<close>, then a message that would have been answered:
  only the ready announcement is sent.
\<close>

theorem non_object_message_raises_witness:
  "handle env0 oai0 [Json (JObj []), Json (JArr []), Bad_json] conn0 =
     (Some AttributeError,
      \<lparr>sent = [JObj [(''type'', JStr ''ready''), (''server'', JStr ''sample-mcp-server''),
                     (''capabilities'', JArr [JStr ''llm.generate''])]],
       calls = [], world = ()\<rparr>)"
  using non_object_message_raises[of env0 oai0 conn0 _ _ _ _ "[]" "[Bad_json]" "JObj []"]
  by (simp add: conn0_def ready_def SERVER_NAME_def CAPS_def del: handle.simps serve.simps on_message.simps)

text \<open>
  Claim C2 says that when the temperature of a request for \<^verbatim>\<open>llm.generate\<close> cannot be
  coerced to a float, the failure is caught and reported as a result with the error code
  \<^verbatim>\<open>LLMError\<close>, and the session goes on. The handler does not do that: \<^verbatim>\<open>float(...)\<close>
  stands on line 80, and the \<^verbatim>\<open>try\<close> that turns exceptions into \<^verbatim>\<open>LLMError\<close> starts on
  line 92. The exception of the coercion leaves the handler: no frame is sent, the
  backend is not called and the messages after it are never served.
\<close>

theorem temperature_coercion_not_caught:
  assumes "map_of msg ''type'' = Some (JStr ''request'')"
      and "map_of msg ''method'' = Some (JStr ''llm.generate'')"
      and "map_of msg ''params'' = Some (JObj p)"
      and "py_float env (dict_get p ''temperature'' (JFloat (float_0_2 env))) = Inl e"
  shows "on_message env oai (Json (JObj msg)) c = (Some e, c)
       \<and> serve env oai (Json (JObj msg) # rest) c = (Some e, c)"
proof -
  have "on_message env oai (Json (JObj msg)) c =
          llm_generate env oai (dict_get msg ''id'' (JStr ''unknown'')) (JObj p) c"
    using assms(1,2,3) by (simp add: on_message_generate dict_get_present)
  then have "on_message env oai (Json (JObj msg)) c = (Some e, c)"
    by (simp add: llm_generate_raises[OF assms(4)])
  then show ?thesis
    by (simp del: on_message.simps)
qed

text \<open>
  A handshake, then a request whose temperature is \<^verbatim>\<open>null\<close>, then a request that would
  have been answered: only the ready announcement is sent.
\<close>

theorem temperature_coercion_not_caught_witness:
  "handle env0 oai0
     [Json (JObj []),
      Json (JObj [(''type'', JStr ''request''), (''id'', JStr ''r1''),
                  (''method'', JStr ''llm.generate''),
                  (''params'', JObj [(''prompt'', JStr ''hi''), (''temperature'', JNull)])]),
      Json (JObj [(''type'', JStr ''request''), (''id'', JStr ''r2''),
                  (''method'', JStr ''llm.generate''),
                  (''params'', JObj [(''prompt'', JStr ''hi'')])])]
     conn0 =
     (Some TypeError,
      \<lparr>sent = [JObj [(''type'', JStr ''ready''), (''server'', JStr ''sample-mcp-server''),
                     (''capabilities'', JArr [JStr ''llm.generate''])]],
       calls = [], world = ()\<rparr>)"
proof -
  define p :: "(string \<times> rat json) list" where
    "p = [(''prompt'', JStr ''hi''), (''temperature'', JNull)]"
  define msg :: "(string \<times> rat json) list" where
    "msg = [(''type'', JStr ''request''), (''id'', JStr ''r1''),
            (''method'', JStr ''llm.generate''), (''params'', JObj p)]"
  have h1: "map_of msg ''type'' = Some (JStr ''request'')"
    and h2: "map_of msg ''method'' = Some (JStr ''llm.generate'')"
    and h3: "map_of msg ''params'' = Some (JObj p)"
    and h4: "py_float env0 (dict_get p ''temperature'' (JFloat (float_0_2 env0))) = Inl TypeError"
    by (simp_all add: msg_def p_def dict_get_def)
  from temperature_coercion_not_caught[OF h1 h2 h3 h4, of oai0 "ws_send ready conn0"]
  show ?thesis
    unfolding msg_def p_def
    by (simp add: ws_send_def conn0_def ready_def SERVER_NAME_def CAPS_def
          del: serve.simps on_message.simps)
qed

text \<open>
  Claim C3 says that every request for \<^verbatim>\<open>llm.generate\<close> whose prompt is empty or
  whitespace is answered by the result \<^verbatim>\<open>BadRequest\<close>, \<^verbatim>\<open>prompt is required\<close>, and that the
  loop goes on. The check of the prompt stands on line 83, after the coercion of the
  temperature on line 80: a request with a blank prompt and a temperature that \<^verbatim>\<open>float\<close>
  rejects is not answered at all, and the handler ends with the exception. (With a
  temperature that \<^verbatim>\<open>float\<close> accepts the answer is the one claimed: \<open>llm_generate_blank\<close>.)
\<close>

theorem blank_prompt_bad_temperature:
  "strip ''   '' = []
   \<and> on_message env oai
       (Json (JObj [(''type'', JStr ''request''), (''id'', JStr ''r1''),
                    (''method'', JStr ''llm.generate''),
                    (''params'', JObj [(''prompt'', JStr ''   ''), (''temperature'', JNull)])]))
       c = (Some TypeError, c)
   \<and> serve env oai
       (Json (JObj [(''type'', JStr ''request''), (''id'', JStr ''r1''),
                    (''method'', JStr ''llm.generate''),
                    (''params'', JObj [(''prompt'', JStr ''   ''), (''temperature'', JNull)])]) # rest)
       c = (Some TypeError, c)"
  by (simp add: strip_def isspace_def dict_get_def llm_generate_def Let_def)

text \<open>A handshake, then the request with the prompt of three spaces and the temperature \<^verbatim>\<open>null\<close>.\<close>

theorem blank_prompt_bad_temperature_witness:
  "handle env0 oai0
     [Json (JObj []),
      Json (JObj [(''type'', JStr ''request''), (''id'', JStr ''r1''),
                  (''method'', JStr ''llm.generate''),
                  (''params'', JObj [(''prompt'', JStr ''   ''), (''temperature'', JNull)])])]
     conn0 =
     (Some TypeError,
      \<lparr>sent = [JObj [(''type'', JStr ''ready''), (''server'', JStr ''sample-mcp-server''),
                     (''capabilities'', JArr [JStr ''llm.generate''])]],
       calls = [], world = ()\<rparr>)"
  using blank_prompt_bad_temperature[of env0 oai0 "ws_send ready conn0" "[]"]
  by (simp add: ws_send_def conn0_def ready_def SERVER_NAME_def CAPS_def
        del: serve.simps on_message.simps)

end
